theory Spec2Isabelle
  imports Main
begin

section \<open>JavaScript values and errors\<close>

text \<open>
  The primitive values the default rules of the validator are applied to. Numbers are
  the integer-valued ones (no NaN, no infinities, no fractions); objects and functions
  are modelled where they occur (rule descriptors, blocks), not as values under
  validation.
\<close>

datatype jsval = JUndefined | JNull | JBool bool | JNum int | JStr string

fun typeof :: "jsval \<Rightarrow> string" where
  "typeof JUndefined = ''undefined''"
| "typeof JNull = ''object''"
| "typeof (JBool b) = ''boolean''"
| "typeof (JNum n) = ''number''"
| "typeof (JStr s) = ''string''"

text \<open>ToBoolean: what an \<open>if\<close>, \<open>!\<close> or \<open>||\<close> sees in a value.\<close>

fun truthy :: "jsval \<Rightarrow> bool" where
  "truthy JUndefined = False"
| "truthy JNull = False"
| "truthy (JBool b) = b"
| "truthy (JNum n) = (n \<noteq> 0)"
| "truthy (JStr s) = (s \<noteq> [])"

text \<open>\<open>===\<close> on primitives (without NaN, strict equality is equality of the values).\<close>

definition strict_eq :: "jsval \<Rightarrow> jsval \<Rightarrow> bool" where
  "strict_eq x y = (x = y)"

text \<open>Strings are compared code unit by code unit, a proper prefix being smaller.\<close>

fun str_less :: "string \<Rightarrow> string \<Rightarrow> bool" where
  "str_less [] [] = False"
| "str_less [] (y # ys) = True"
| "str_less (x # xs) [] = False"
| "str_less (x # xs) (y # ys) =
     ((of_char x :: nat) < of_char y \<or> (x = y \<and> str_less xs ys))"

text \<open>
  The relational operators with a left operand that is a result of \<open>typeof\<close>. Such a
  string (\<open>undefined\<close>, \<open>object\<close>, \<open>boolean\<close>, \<open>number\<close>, \<open>string\<close>, ...) is
  no numeric literal. Against a string the comparison is the one of strings; against
  any other primitive both sides are converted to numbers, the left one to NaN, and
  every comparison with NaN is false.
\<close>

definition typeof_gt :: "string \<Rightarrow> jsval \<Rightarrow> bool" where
  "typeof_gt t y = (case y of JStr s \<Rightarrow> str_less s t | _ \<Rightarrow> False)"

definition typeof_ge :: "string \<Rightarrow> jsval \<Rightarrow> bool" where
  "typeof_ge t y = (case y of JStr s \<Rightarrow> \<not> str_less t s | _ \<Rightarrow> False)"

definition typeof_lt :: "string \<Rightarrow> jsval \<Rightarrow> bool" where
  "typeof_lt t y = (case y of JStr s \<Rightarrow> str_less t s | _ \<Rightarrow> False)"

definition typeof_le :: "string \<Rightarrow> jsval \<Rightarrow> bool" where
  "typeof_le t y = (case y of JStr s \<Rightarrow> \<not> str_less s t | _ \<Rightarrow> False)"

text \<open>
  The error classes: the built-in ones the validator and the engine throw, and the
  classes of \<open>helpers/errors\<close>, each with the class it extends.
\<close>

datatype error_class =
  ErrorC | TypeErrorC | RangeErrorC
  | LiskError | HTTPServerError | InvalidArgumentError | ParamValidationError | SQLError

fun extends :: "error_class \<Rightarrow> error_class option" where
  "extends ErrorC = None"
| "extends TypeErrorC = Some ErrorC"
| "extends RangeErrorC = Some ErrorC"
| "extends LiskError = Some ErrorC"
| "extends HTTPServerError = Some LiskError"
| "extends InvalidArgumentError = Some LiskError"
| "extends ParamValidationError = Some LiskError"
| "extends SQLError = Some LiskError"

text \<open>\<open>e instanceof C\<close> for an error \<open>e\<close> constructed by class \<open>c\<close>.\<close>

definition instance_of :: "error_class \<Rightarrow> error_class \<Rightarrow> bool" where
  "instance_of c C =
     (c = C
      \<or> (case extends c of
            None \<Rightarrow> False
          | Some d \<Rightarrow> d = C \<or> (case extends d of None \<Rightarrow> False | Some d' \<Rightarrow> d' = C)))"

datatype thrown = Thrown error_class string

fun class_of :: "thrown \<Rightarrow> error_class" where
  "class_of (Thrown c m) = c"

text \<open>
  The TypeErrors of the engine. Their wording differs between engines; what matters
  is which operation raised them.
\<close>

definition getter_only_assignment :: thrown where
  "getter_only_assignment = Thrown TypeErrorC ''Cannot set property which has only a getter''"

definition cannot_redefine :: thrown where
  "cannot_redefine = Thrown TypeErrorC ''Cannot redefine property''"

definition null_property_read :: thrown where
  "null_property_read = Thrown TypeErrorC ''Cannot read property of null''"

section \<open>Rule descriptors and the rules table\<close>

text \<open>
  A rule descriptor: an object with an optional description, optional aliases and a
  \<open>validate(accept, value)\<close> predicate or a \<open>filter(accept, value)\<close> transform.
  A field is \<open>None\<close> when the object has no such property.
\<close>

record 'v rule =
  description :: "string option"
  aliases :: "string list option"
  validate_fn :: "('v \<Rightarrow> 'v \<Rightarrow> bool) option"
  filter_fn :: "('v \<Rightarrow> 'v \<Rightarrow> 'v) option"

text \<open>
  What a caller can pass where a descriptor is expected, and so what a rules table can
  hold: a primitive, a function, or an object read as a descriptor.
\<close>

datatype 'v jsarg = Prim jsval | Func | Obj "'v rule"

fun typeof_arg :: "'v jsarg \<Rightarrow> string" where
  "typeof_arg (Prim v) = typeof v"
| "typeof_arg Func = ''function''"
| "typeof_arg (Obj r) = ''object''"

text \<open>
  A property of a rules object is a data property or an accessor with a getter and no
  setter, as \<open>addAlias\<close> defines it: \<open>Getter origin c\<close> returns \<open>this[origin]\<close>, and
  \<open>c\<close> says whether the property is configurable. An object is looked up through
  its own properties; a prototype chain is the list of objects from the receiver
  upwards, ending with the rules table. What the table itself inherits from
  (\<open>Object.prototype\<close>, unless an assignment to \<open>__proto__\<close> has replaced it) is
  left out of lookups: a name found only there (\<open>toString\<close>, \<open>constructor\<close>,
  \<open>__proto__\<close>, ...) is taken not to be looked up as a rule.
\<close>

datatype 'v property = Data "'v jsarg" | Getter string bool

type_synonym 'v props = "string \<rightharpoonup> 'v property"

fun find_prop :: "'v props list \<Rightarrow> string \<Rightarrow> 'v property option" where
  "find_prop [] name = None"
| "find_prop (ob # chain) name =
     (case ob name of Some p \<Rightarrow> Some p | None \<Rightarrow> find_prop chain name)"

text \<open>\<open>name in object\<close>: no getter runs.\<close>

definition obj_has :: "'v props list \<Rightarrow> string \<Rightarrow> bool" where
  "obj_has chain name = (find_prop chain name \<noteq> None)"

text \<open>
  \<open>object[name]\<close>. A getter runs with the receiver as \<open>this\<close>, so an alias found
  on a prototype reads its origin from the object the lookup started at. A cycle of
  aliases recurses until the call stack is exhausted: the read does not return, which
  is the value \<open>None\<close>.
\<close>

partial_function (option) obj_get :: "'v props list \<Rightarrow> string \<Rightarrow> 'v jsarg option" where
  "obj_get chain name =
     (case find_prop chain name of
        None \<Rightarrow> Some (Prim JUndefined)
      | Some (Data d) \<Rightarrow> Some d
      | Some (Getter origin c) \<Rightarrow> obj_get chain origin)"

declare obj_get.simps [code]

text \<open>
  The rules table \<open>Validator.prototype.rules\<close>: its own properties, and what it
  inherits from. It is created as \<open>{}\<close> and so inherits from \<open>Object.prototype\<close>,
  whose accessor \<open>__proto__\<close> has a setter: an assignment to \<open>__proto__\<close> that
  reaches the setter replaces the prototype, by a rule object (a plain object, which
  inherits from \<open>Object.prototype\<close> in its turn) or by nothing (\<open>null\<close>).
\<close>

datatype 'v above = ObjectPrototype | RuleObject "'v rule" | Nothing

record 'v table =
  entries :: "'v props"
  inherits :: "'v above"

definition empty_table :: "'v table" where
  "empty_table = \<lparr>entries = Map.empty, inherits = ObjectPrototype\<rparr>"

text \<open>
  \<open>Validator.addAlias(name, origin)\<close>: \<open>Object.defineProperty\<close> with a getter only,
  on \<open>Validator.prototype.rules\<close>. It looks at the table's own properties alone. A
  new property is created non-configurable; an existing data property (made by
  assignment, so configurable) is turned into the accessor and stays configurable; an
  existing non-configurable accessor cannot be given another getter, and every call
  brings a new one. The result is what was thrown, if anything, and the table as the
  call leaves it.
\<close>

definition addAlias :: "'v table \<Rightarrow> string \<Rightarrow> string \<Rightarrow> thrown option \<times> 'v table" where
  "addAlias tbl name origin =
     (case entries tbl name of
        None \<Rightarrow> (None, tbl\<lparr>entries := (entries tbl)(name \<mapsto> Getter origin False)\<rparr>)
      | Some (Data d) \<Rightarrow> (None, tbl\<lparr>entries := (entries tbl)(name \<mapsto> Getter origin True)\<rparr>)
      | Some (Getter o' True) \<Rightarrow>
          (None, tbl\<lparr>entries := (entries tbl)(name \<mapsto> Getter origin True)\<rparr>)
      | Some (Getter o' False) \<Rightarrow> (Some cannot_redefine, tbl))"

text \<open>\<open>descriptor.aliases.forEach(alias => self.addAlias(alias, name))\<close>\<close>

fun add_aliases :: "'v table \<Rightarrow> string list \<Rightarrow> string \<Rightarrow> thrown option \<times> 'v table" where
  "add_aliases tbl [] name = (None, tbl)"
| "add_aliases tbl (alias # rest) name =
     (case addAlias tbl alias name of
        (Some e, tbl') \<Rightarrow> (Some e, tbl')
      | (None, tbl') \<Rightarrow> add_aliases tbl' rest name)"

text \<open>
  An assignment to \<open>name\<close> reaches the setter of \<open>Object.prototype\<close> when the name
  is \<open>__proto__\<close>, the table has no property of its own by that name, and the table
  still inherits from \<open>Object.prototype\<close>, directly or through a rule object.
\<close>

definition reaches_setter :: "'v table \<Rightarrow> string \<Rightarrow> bool" where
  "reaches_setter tbl name =
     (name = ''__proto__'' \<and> entries tbl name = None
      \<and> (case inherits tbl of Nothing \<Rightarrow> False | _ \<Rightarrow> True))"

text \<open>
  The setter of \<open>__proto__\<close>: an object or \<open>null\<close> becomes the prototype, any other
  value is ignored. No property is created.
\<close>

definition set_prototype :: "'v table \<Rightarrow> 'v jsarg \<Rightarrow> 'v table" where
  "set_prototype tbl v =
     (case v of
        Obj r \<Rightarrow> tbl\<lparr>inherits := RuleObject r\<rparr>
      | Prim JNull \<Rightarrow> tbl\<lparr>inherits := Nothing\<rparr>
      | _ \<Rightarrow> tbl)"

text \<open>
  \<open>this.prototype.rules[name] = descriptor\<close> in strict mode. An own accessor without
  a setter refuses the assignment with a TypeError; an own data property takes the
  value; with no own property the assignment runs the inherited setter when it reaches
  one, and creates a data property otherwise.
\<close>

definition assign_rule :: "'v table \<Rightarrow> string \<Rightarrow> 'v jsarg \<Rightarrow> thrown option \<times> 'v table" where
  "assign_rule tbl name descriptor =
     (case entries tbl name of
        Some (Getter origin c) \<Rightarrow> (Some getter_only_assignment, tbl)
      | Some (Data d) \<Rightarrow> (None, tbl\<lparr>entries := (entries tbl)(name \<mapsto> Data descriptor)\<rparr>)
      | None \<Rightarrow>
          if reaches_setter tbl name then (None, set_prototype tbl descriptor)
          else (None, tbl\<lparr>entries := (entries tbl)(name \<mapsto> Data descriptor)\<rparr>))"

definition not_an_object :: thrown where
  "not_an_object = Thrown ErrorC ''Rule descriptor should be an object''"

text \<open>
  \<open>Validator.addRule(name, descriptor)\<close>. The guard is \<open>typeof descriptor !== 'object'\<close>;
  \<open>descriptor.hasOwnProperty\<close> is read after the assignment, and on \<open>null\<close> that read
  throws.
\<close>

definition addRule :: "'v table \<Rightarrow> string \<Rightarrow> 'v jsarg \<Rightarrow> thrown option \<times> 'v table" where
  "addRule tbl name descriptor =
     (if typeof_arg descriptor \<noteq> ''object'' then (Some not_an_object, tbl)
      else
        (case assign_rule tbl name descriptor of
           (Some e, tbl') \<Rightarrow> (Some e, tbl')
         | (None, tbl') \<Rightarrow>
             (case descriptor of
                Obj r \<Rightarrow>
                  (case aliases r of
                     None \<Rightarrow> (None, tbl')
                   | Some als \<Rightarrow> add_aliases tbl' als name)
              | _ \<Rightarrow> (Some null_property_read, tbl'))))"

text \<open>
  Three readings of a table used to state what \<open>addRule\<close> and \<open>addAlias\<close> do:
  whether a name is an accessor (assignment to it fails), whether it is an accessor
  that cannot be redefined, and the aliases an argument of \<open>addRule\<close> lists.
\<close>

definition getter_only :: "'v table \<Rightarrow> string \<Rightarrow> bool" where
  "getter_only tbl name =
     (case entries tbl name of Some (Getter origin c) \<Rightarrow> True | _ \<Rightarrow> False)"

definition sealed :: "'v table \<Rightarrow> string \<Rightarrow> bool" where
  "sealed tbl name =
     (case entries tbl name of Some (Getter origin c) \<Rightarrow> \<not> c | _ \<Rightarrow> False)"

definition alias_list :: "'v jsarg \<Rightarrow> string list" where
  "alias_list d =
     (case d of Obj r \<Rightarrow> (case aliases r of Some als \<Rightarrow> als | None \<Rightarrow> []) | _ \<Rightarrow> [])"


section \<open>The default rules\<close>

definition defaults_filter :: "jsval \<Rightarrow> jsval \<Rightarrow> jsval" where
  "defaults_filter accept v = (if typeof v = ''undefined'' then accept else v)"

text \<open>\<open>typeof (value === accept)\<close> is the string \<open>boolean\<close>, whatever the operands.\<close>

definition type_validate :: "jsval \<Rightarrow> jsval \<Rightarrow> bool" where
  "type_validate accept v = truthy (JStr (typeof (JBool (strict_eq v accept))))"

definition equal_validate :: "jsval \<Rightarrow> jsval \<Rightarrow> bool" where
  "equal_validate accept v = strict_eq v accept"

definition notEqual_validate :: "jsval \<Rightarrow> jsval \<Rightarrow> bool" where
  "notEqual_validate accept v = truthy (JStr (typeof (JBool (\<not> strict_eq v accept))))"

text \<open>\<open>typeof value > accept\<close>: \<open>typeof\<close> binds tighter than the comparison.\<close>

definition greater_validate :: "jsval \<Rightarrow> jsval \<Rightarrow> bool" where
  "greater_validate accept v = typeof_gt (typeof v) accept"

definition greaterOrEqual_validate :: "jsval \<Rightarrow> jsval \<Rightarrow> bool" where
  "greaterOrEqual_validate accept v = typeof_ge (typeof v) accept"

definition less_validate :: "jsval \<Rightarrow> jsval \<Rightarrow> bool" where
  "less_validate accept v = typeof_lt (typeof v) accept"

definition lessOrEqual_validate :: "jsval \<Rightarrow> jsval \<Rightarrow> bool" where
  "lessOrEqual_validate accept v = typeof_le (typeof v) accept"

definition filter_rule :: "string \<Rightarrow> (jsval \<Rightarrow> jsval \<Rightarrow> jsval) \<Rightarrow> jsval rule" where
  "filter_rule d f =
     \<lparr>description = Some d, aliases = None, validate_fn = None, filter_fn = Some f\<rparr>"

definition validate_rule ::
  "string \<Rightarrow> string list option \<Rightarrow> (jsval \<Rightarrow> jsval \<Rightarrow> bool) \<Rightarrow> jsval rule" where
  "validate_rule d als p =
     \<lparr>description = Some d, aliases = als, validate_fn = Some p, filter_fn = None\<rparr>"

text \<open>The \<open>Validator.addRule\<close> calls of the module, in their order.\<close>

definition default_rule_list :: "(string \<times> jsval jsarg) list" where
  "default_rule_list =
     [(''defaults'',
         Obj (filter_rule ''Set default value if passed value is undefined'' defaults_filter)),
      (''type'', Obj (validate_rule ''Check value type'' None type_validate)),
      (''equal'',
         Obj (validate_rule ''Check if value equals acceptable value'' None equal_validate)),
      (''notEqual'',
         Obj (validate_rule ''Check if value not equals acceptable value'' None
                notEqual_validate)),
      (''greater'',
         Obj (validate_rule ''Check if value is greater then acceptable value''
                (Some [''>'', ''gt'']) greater_validate)),
      (''greaterOrEqual'',
         Obj (validate_rule ''Check if value is greater then or equal acceptable value''
                (Some [''>='', ''gte'']) greaterOrEqual_validate)),
      (''less'',
         Obj (validate_rule ''Check if value is less then acceptable value''
                (Some [''<'', ''lt'']) less_validate)),
      (''lessOrEqual'',
         Obj (validate_rule ''Check if value is less then or equal acceptable value''
                (Some [''<='', ''lte'']) lessOrEqual_validate))]"

text \<open>
  Calls of \<open>addRule\<close> one after the other, as the module makes them when it is
  loaded: the first that throws ends the sequence.
\<close>

fun add_rules :: "'v table \<Rightarrow> (string \<times> 'v jsarg) list \<Rightarrow> thrown option \<times> 'v table" where
  "add_rules tbl [] = (None, tbl)"
| "add_rules tbl ((name, descriptor) # rest) =
     (case addRule tbl name descriptor of
        (Some e, tbl') \<Rightarrow> (Some e, tbl')
      | (None, tbl') \<Rightarrow> add_rules tbl' rest)"

text \<open>
  \<open>Validator.prototype.rules\<close> once the module is loaded, and the properties it has
  then.
\<close>

definition default_table :: "jsval table" where
  "default_table = snd (add_rules empty_table default_rule_list)"

definition default_rules :: "jsval props" where
  "default_rules = entries default_table"

section \<open>The validator\<close>

text \<open>
  A rule set maps rule names to accepted parameters, in the order of its keys. An
  issue records the rule that failed, the accepted parameter and the value it saw.
\<close>

type_synonym 'v ruleset = "(string \<times> 'v) list"

record 'v issue =
  issue_rule :: string
  issue_accept :: 'v
  issue_value :: 'v

text \<open>
  The issues of a report: the field's list as it is, or what the reporter's
  \<open>convert(issues, rules)\<close> made of it.
\<close>

datatype ('v, 'r) reported = Raw "'v issue list" | Converted 'r

text \<open>
  A validator instance. \<open>rules\<close> is the instance's rules object followed by its
  prototype chain; \<open>reporter\<close> is the reporter's \<open>convert\<close>, if there is one.
\<close>

record ('v, 'r) validator =
  forceAsync :: bool
  skipMissed :: bool
  execRules :: bool
  rules :: "'v props list"
  reporter :: "('v issue list \<Rightarrow> 'v ruleset \<Rightarrow> 'r) option"

record ('v, 'r) report =
  isValid :: bool
  isAsync :: bool
  issues :: "('v, 'r) reported"
  report_rules :: "'v ruleset"
  report_value :: 'v

text \<open>
  \<open>Validator.prototype\<close>, where the constructor reads its defaults and the
  properties of the shared rules table, and the options object given to the
  constructor (an absent option is falsy).
\<close>

record ('v, 'r) prototype =
  proto_forceAsync :: bool
  proto_skipMissed :: bool
  proto_execRules :: bool
  proto_rules :: "'v props"
  proto_reporter :: "('v issue list \<Rightarrow> 'v ruleset \<Rightarrow> 'r) option"

record ('v, 'r) options =
  opt_forceAsync :: bool
  opt_skipMissed :: bool
  opt_execRules :: bool
  opt_rules :: "(string \<rightharpoonup> 'v jsarg) option"
  opt_reporter :: "('v issue list \<Rightarrow> 'v ruleset \<Rightarrow> 'r) option"

definition Validator_prototype :: "(jsval, 'r) prototype" where
  "Validator_prototype =
     \<lparr>proto_forceAsync = False, proto_skipMissed = False, proto_execRules = True,
      proto_rules = default_rules, proto_reporter = None\<rparr>"

text \<open>\<open>Validator.options\<close>\<close>

definition Validator_options :: "('v, 'r) options" where
  "Validator_options =
     \<lparr>opt_forceAsync = False, opt_skipMissed = False, opt_execRules = True,
      opt_rules = None, opt_reporter = None\<rparr>"

text \<open>
  Modelled from the spec: \<open>utils.extend\<close> (\<open>utils.js\<close>) is not among the
  sources. The rules passed at construction are merged onto the object that inherits
  the prototype-level rule set: every entry of the source becomes an own property of
  the target, and an absent source leaves the target as it is. (Whether the helper's
  own assignment would be refused for a name that the prototype defines as an alias
  cannot be told without its source.)
\<close>

definition extend :: "'v props list \<Rightarrow> (string \<rightharpoonup> 'v jsarg) option \<Rightarrow> 'v props list" where
  "extend target source =
     (case (target, source) of
        (ob # chain, Some src) \<Rightarrow> (ob ++ (map_option Data \<circ> src)) # chain
      | _ \<Rightarrow> target)"

text \<open>
  \<open>new Validator(options)\<close>. \<open>Object.create(this.rules)\<close> is a new object with no
  property of its own in front of the prototype's table.
\<close>

definition new_Validator :: "('v, 'r) prototype \<Rightarrow> ('v, 'r) options \<Rightarrow> ('v, 'r) validator" where
  "new_Validator proto opts =
     \<lparr>forceAsync = (proto_forceAsync proto \<or> opt_forceAsync opts),
      skipMissed = (proto_skipMissed proto \<or> opt_skipMissed opts),
      execRules = (proto_execRules proto \<or> opt_execRules opts),
      rules = extend [Map.empty, proto_rules proto] (opt_rules opts),
      reporter = (case proto_reporter proto of Some rp \<Rightarrow> Some rp | None \<Rightarrow> opt_reporter opts)\<rparr>"

definition hasRule :: "('v, 'r) validator \<Rightarrow> string \<Rightarrow> bool" where
  "hasRule vd name = obj_has (rules vd) name"

definition not_defined :: "string \<Rightarrow> thrown" where
  "not_defined name =
     Thrown ErrorC (''Rule '' @ [CHR 0x22] @ name @ [CHR 0x22] @ '' is not defined'')"


text \<open>
  What \<open>field.validate(finish)\<close> has done when it returns: called \<open>finish(err, issues,
  output)\<close>, or not yet. What has become of the callback when a call returns: there was
  none, it was invoked in-line, it was handed to \<open>setTimeout\<close>, or completion is
  still pending.
\<close>

datatype 'v outcome = Finish "thrown option" "'v issue list" 'v | Pending

datatype delivery = NoCallback | Inline | Deferred | NotYet

text \<open>The report as \<open>finish\<close> fills it in.\<close>

definition make_report ::
  "('v, 'r) validator \<Rightarrow> 'v ruleset \<Rightarrow> bool \<Rightarrow> 'v issue list \<Rightarrow> 'v \<Rightarrow> ('v, 'r) report" where
  "make_report vd rs async iss output =
     \<lparr>isValid = (length iss = 0), isAsync = async,
      issues = (case reporter vd of Some convert \<Rightarrow> Converted (convert iss rs)
                | None \<Rightarrow> Raw iss),
      report_rules = rs, report_value = output\<rparr>"

text \<open>
  The closure \<open>finish\<close> of \<open>Validator.prototype.validate\<close>, with what it reads from
  its environment as arguments: the validator, the rule set, whether a callback was
  given and the value of \<open>async\<close> at the time of the call.
\<close>

definition finish ::
  "('v, 'r) validator \<Rightarrow> 'v ruleset \<Rightarrow> bool \<Rightarrow> bool \<Rightarrow> thrown option \<Rightarrow> 'v issue list \<Rightarrow> 'v
   \<Rightarrow> thrown + ('v, 'r) report \<times> delivery" where
  "finish vd rs callback async err iss output =
     (let rep = make_report vd rs async iss output
      in if \<not> callback then
           (case err of
              Some e \<Rightarrow> Inl e
            | None \<Rightarrow>
                if async then Inl (Thrown ErrorC ''Async validation without callback'')
                else Inr (rep, NoCallback))
         else if async \<or> \<not> callback \<or> \<not> forceAsync vd then Inr (rep, Inline)
         else Inr (rep, Deferred))"

text \<open>
  \<open>Validator.prototype.validate(value, rules, callback)\<close> up to its return. The field
  is the one \<open>createField\<close> makes; its \<open>validate\<close> is a parameter. A \<open>finish\<close>
  called before the return sees \<open>async = false\<close>, and what it throws leaves
  \<open>validate\<close> through the field. The report returned is \<open>None\<close> while it is still
  the empty object.
\<close>

definition validate ::
  "('v, 'r) validator \<Rightarrow> (('v, 'r) validator \<Rightarrow> 'v \<Rightarrow> 'v ruleset \<Rightarrow> 'v outcome)
   \<Rightarrow> 'v \<Rightarrow> 'v ruleset \<Rightarrow> bool \<Rightarrow> thrown + ('v, 'r) report option \<times> delivery" where
  "validate vd field v rs callback =
     (case field vd v rs of
        Finish err iss output \<Rightarrow>
          (case finish vd rs callback False err iss output of
             Inl e \<Rightarrow> Inl e
           | Inr (rep, d) \<Rightarrow> Inr (Some rep, d))
      | Pending \<Rightarrow>
          if \<not> callback then Inl (Thrown ErrorC ''Validation not finished'')
          else Inr (None, NotYet))"

text \<open>
  The static \<open>Validator.validate(value, rules, customRules, callback)\<close>. The third
  argument is absent, a rule table, or the callback itself. The instance is made from
  \<open>Validator.options\<close> with \<open>rules\<close> set to the custom rules.
\<close>

datatype 'v third = Absent | CustomRules "string \<rightharpoonup> 'v jsarg" | CallbackFunction

definition Validator_validate ::
  "('v, 'r) prototype \<Rightarrow> (('v, 'r) validator \<Rightarrow> 'v \<Rightarrow> 'v ruleset \<Rightarrow> 'v outcome)
   \<Rightarrow> 'v \<Rightarrow> 'v ruleset \<Rightarrow> 'v third \<Rightarrow> bool \<Rightarrow> thrown + ('v, 'r) report option \<times> delivery" where
  "Validator_validate proto field v rs customRules callback =
     (let (custom, cb) =
            (case customRules of
               CallbackFunction \<Rightarrow> (Some Map.empty, True)
             | CustomRules m \<Rightarrow> (Some m, callback)
             | Absent \<Rightarrow> (None, callback));
          instance = new_Validator proto (Validator_options\<lparr>opt_rules := custom\<rparr>)
      in validate instance field v rs cb)"

section \<open>The field\<close>

text \<open>
  Modelled from the spec: \<open>Field\<close> (\<open>field.js\<close>) is not among the sources. When
  \<open>execRules\<close> is enabled and the accepted parameter of a rule is invocable, it is
  first invoked, with the field as context, to resolve the actual accepted value.
  \<open>invoke\<close> says which values are invocable and what the call returns for the
  field's current value.
\<close>

definition resolve :: "('v \<Rightarrow> ('v \<Rightarrow> 'v) option) \<Rightarrow> ('v, 'r) validator \<Rightarrow> 'v \<Rightarrow> 'v \<Rightarrow> 'v" where
  "resolve invoke vd acc v =
     (if execRules vd then (case invoke acc of Some f \<Rightarrow> f v | None \<Rightarrow> acc) else acc)"

text \<open>
  Modelled from the spec: \<open>Field\<close> is not among the sources. A filter-kind rule
  replaces the field's value with the filter's return value; a validate-kind rule
  produces a boolean, and on failure an issue record is appended capturing the rule
  name, the accepted parameter and the current value.
\<close>

definition apply_rule ::
  "'v rule \<Rightarrow> string \<Rightarrow> 'v \<Rightarrow> 'v \<Rightarrow> 'v issue list \<Rightarrow> 'v \<times> 'v issue list" where
  "apply_rule r name acc v iss =
     (let v' = (case filter_fn r of Some f \<Rightarrow> f acc v | None \<Rightarrow> v)
      in (v',
          case validate_fn r of
            Some p \<Rightarrow>
              if p acc v' then iss
              else iss @ [\<lparr>issue_rule = name, issue_accept = acc, issue_value = v'\<rparr>]
          | None \<Rightarrow> iss))"

text \<open>
  Modelled from the spec: \<open>Field\<close> is not among the sources. One entry of the rule
  set either leaves the field with a value and its issues, or ends the evaluation with
  an error for the completion callback.
\<close>

datatype 'v step = Continue 'v "'v issue list" | Stop thrown

definition call_stack_exhausted :: thrown where
  "call_stack_exhausted = Thrown RangeErrorC ''Maximum call stack size exceeded''"

text \<open>
  Modelled from the spec: \<open>Field\<close> is not among the sources. A rule name absent from
  the registry is skipped when \<open>skipMissed\<close> is set and is a hard failure otherwise;
  a registered descriptor is applied. An entry that is no rule object is neither
  filter-kind nor validate-kind and changes nothing.
\<close>

definition Field_rule ::
  "('v \<Rightarrow> ('v \<Rightarrow> 'v) option) \<Rightarrow> ('v, 'r) validator \<Rightarrow> string \<Rightarrow> 'v \<Rightarrow> 'v \<Rightarrow> 'v issue list
   \<Rightarrow> 'v step" where
  "Field_rule invoke vd name acc v iss =
     (if \<not> hasRule vd name then
        (if skipMissed vd then Continue v iss else Stop (not_defined name))
      else
        (case obj_get (rules vd) name of
           None \<Rightarrow> Stop call_stack_exhausted
         | Some (Obj r) \<Rightarrow>
             (case apply_rule r name (resolve invoke vd acc v) v iss of
                (v', iss') \<Rightarrow> Continue v' iss')
         | Some _ \<Rightarrow> Continue v iss))"

text \<open>
  Modelled from the spec: \<open>Field\<close> is not among the sources. \<open>validate(finish)\<close>
  iterates over every entry of the rule set; \<open>finish(err, issues, value)\<close> is invoked
  once, after all entries have been processed or at the first hard failure.
\<close>

fun Field_rules ::
  "('v \<Rightarrow> ('v \<Rightarrow> 'v) option) \<Rightarrow> ('v, 'r) validator \<Rightarrow> 'v ruleset \<Rightarrow> 'v \<Rightarrow> 'v issue list
   \<Rightarrow> 'v outcome" where
  "Field_rules invoke vd [] v iss = Finish None iss v"
| "Field_rules invoke vd ((name, acc) # rest) v iss =
     (case Field_rule invoke vd name acc v iss of
        Continue v' iss' \<Rightarrow> Field_rules invoke vd rest v' iss'
      | Stop e \<Rightarrow> Finish (Some e) iss v)"

text \<open>
  Modelled from the spec: \<open>Field\<close> is not among the sources. A field starts with the
  value under validation and no issue.
\<close>

definition Field_validate ::
  "('v \<Rightarrow> ('v \<Rightarrow> 'v) option) \<Rightarrow> ('v, 'r) validator \<Rightarrow> 'v \<Rightarrow> 'v ruleset \<Rightarrow> 'v outcome" where
  "Field_validate invoke vd v rs = Field_rules invoke vd rs v []"

section \<open>The blocks repository\<close>

text \<open>
  The values of a block's fields, the objects of the heap and the heap: an object is
  its fields, a reference is an index into the list of objects.
\<close>

datatype bval = BUndefined | BNull | BBool bool | BNum int | BStr string | BBuffer "nat list"

type_synonym obj = "string \<rightharpoonup> bval"

type_synonym heap = "obj list"

fun bval_truthy :: "bval \<Rightarrow> bool" where
  "bval_truthy BUndefined = False"
| "bval_truthy BNull = False"
| "bval_truthy (BBool b) = b"
| "bval_truthy (BNum n) = (n \<noteq> 0)"
| "bval_truthy (BStr s) = (s \<noteq> [])"
| "bval_truthy (BBuffer b) = True"

text \<open>\<open>x || y\<close>\<close>

definition js_or :: "bval \<Rightarrow> bval \<Rightarrow> bval" where
  "js_or x y = (if bval_truthy x then x else y)"

text \<open>\<open>object.f\<close> and \<open>object.f = v\<close> through a reference.\<close>

definition get_field :: "heap \<Rightarrow> nat \<Rightarrow> string \<Rightarrow> bval" where
  "get_field h a f = (case (h ! a) f of Some v \<Rightarrow> v | None \<Rightarrow> BUndefined)"

definition set_field :: "heap \<Rightarrow> nat \<Rightarrow> string \<Rightarrow> bval \<Rightarrow> heap" where
  "set_field h a f v = h[a := (h ! a)(f \<mapsto> v)]"

text \<open>\<open>Object.assign({}, src)\<close>: a new object with the fields of \<open>src\<close>.\<close>

definition assign_new :: "heap \<Rightarrow> nat \<Rightarrow> heap \<times> nat" where
  "assign_new h src = (h @ [h ! src], length h)"

text \<open>
  \<open>BlocksRepository.save(block)\<close> up to the query: the heap it leaves, and the error
  it rethrows or the object it hands to \<open>pgp.helpers.insert\<close>. \<open>Buffer.from(x, 'hex')\<close>
  is Node's and a parameter here.
\<close>

definition save :: "(bval \<Rightarrow> thrown + bval) \<Rightarrow> heap \<Rightarrow> nat \<Rightarrow> heap \<times> (thrown + nat)" where
  "save buffer_from h block =
     (case assign_new h block of
        (h1, saveBlock) \<Rightarrow>
          (case buffer_from (get_field h1 block ''payloadHash'') of
             Inl e \<Rightarrow> (h1, Inl e)
           | Inr b1 \<Rightarrow>
               (let h2 = set_field h1 saveBlock ''payloadHash'' b1 in
                case buffer_from (get_field h2 block ''generatorPublicKey'') of
                  Inl e \<Rightarrow> (h2, Inl e)
                | Inr b2 \<Rightarrow>
                    (let h3 = set_field h2 saveBlock ''generatorPublicKey'' b2 in
                     case buffer_from (get_field h3 block ''blockSignature'') of
                       Inl e \<Rightarrow> (h3, Inl e)
                     | Inr b3 \<Rightarrow>
                         (let h4 = set_field h3 saveBlock ''blockSignature'' b3;
                              h5 = set_field h4 saveBlock ''reward''
                                     (js_or (get_field h4 block ''reward'') (BNum 0))
                          in (h5, Inr saveBlock))))))"

text \<open>
  The hex decoding of current Node versions, for concrete runs: two digits make a
  byte, and decoding stops at the first pair that is not two hex digits.
\<close>

fun hex_digit :: "char \<Rightarrow> nat option" where
  "hex_digit c =
     (let n = (of_char c :: nat) in
      if 48 \<le> n \<and> n \<le> 57 then Some (n - 48)
      else if 97 \<le> n \<and> n \<le> 102 then Some (n - 87)
      else if 65 \<le> n \<and> n \<le> 70 then Some (n - 55)
      else None)"

fun hex_bytes :: "string \<Rightarrow> nat list" where
  "hex_bytes (a # b # rest) =
     (case (hex_digit a, hex_digit b) of
        (Some x, Some y) \<Rightarrow> (16 * x + y) # hex_bytes rest
      | _ \<Rightarrow> [])"
| "hex_bytes rest = []"

definition Buffer_from :: "bval \<Rightarrow> thrown + bval" where
  "Buffer_from v =
     (case v of
        BStr s \<Rightarrow> Inr (BBuffer (hex_bytes s))
      | BBuffer b \<Rightarrow> Inr (BBuffer b)
      | _ \<Rightarrow> Inl (Thrown TypeErrorC ''The first argument must be a string or a Buffer''))"

section \<open>Inputs for concrete runs\<close>

text \<open>Primitive values are never invocable.\<close>

definition no_functions :: "jsval \<Rightarrow> (jsval \<Rightarrow> jsval) option" where
  "no_functions v = None"

text \<open>A rule that is not among the default ones, with one alias.\<close>

definition same_rule :: "jsval rule" where
  "same_rule =
     validate_rule ''Check if value equals acceptable value'' (Some [''same'']) equal_validate"

text \<open>
  Validators: one with \<open>forceAsync\<close> set, the one made with no option, and one whose
  reporter converts every issue list to the empty list.
\<close>

definition forced_validator :: "(jsval, jsval issue list) validator" where
  "forced_validator =
     \<lparr>forceAsync = True, skipMissed = False, execRules = True,
      rules = [Map.empty, default_rules], reporter = None\<rparr>"

definition default_validator :: "(jsval, jsval issue list) validator" where
  "default_validator = new_Validator Validator_prototype Validator_options"

definition dropping_validator :: "(jsval, jsval issue list) validator" where
  "dropping_validator =
     new_Validator Validator_prototype (Validator_options\<lparr>opt_reporter := Some (\<lambda>iss rs. [])\<rparr>)"

text \<open>A field that has completed, with no issue, when its \<open>validate\<close> returns.\<close>

definition settled :: "('v, 'r) validator \<Rightarrow> 'v \<Rightarrow> 'v ruleset \<Rightarrow> 'v outcome" where
  "settled vd v rs = Finish None [] v"

text \<open>A block with hex strings and no reward.\<close>

definition example_block :: obj where
  "example_block =
     [''id'' \<mapsto> BStr ''7'', ''payloadHash'' \<mapsto> BStr ''e3b0'',
      ''generatorPublicKey'' \<mapsto> BStr ''c094'', ''blockSignature'' \<mapsto> BStr ''0aff'']"

section \<open>Properties of the rules table\<close>

subsection \<open>What the calls leave untouched\<close>

lemma addAlias_other:
  "b \<noteq> name \<Longrightarrow> entries (snd (addAlias tbl name origin)) b = entries tbl b"
  by (simp add: addAlias_def split: option.splits property.splits bool.splits)


lemma addAlias_failed:
  "fst (addAlias tbl a name) \<noteq> None \<Longrightarrow> snd (addAlias tbl a name) = tbl"
  by (simp add: addAlias_def split: option.splits property.splits bool.splits)

lemma addAlias_inherits: "inherits (snd (addAlias tbl a name)) = inherits tbl"
  by (simp add: addAlias_def split: option.splits property.splits bool.splits)

lemma addAlias_entry_cases:
  "entries (snd (addAlias tbl a name)) b = entries tbl b
   \<or> entries (snd (addAlias tbl a name)) b = Some (Getter name True)
   \<or> entries (snd (addAlias tbl a name)) b = Some (Getter name False)"
  by (simp add: addAlias_def split: option.splits property.splits bool.splits)


lemma addAlias_ok:
  "\<not> sealed tbl a \<Longrightarrow>
   fst (addAlias tbl a name) = None
   \<and> (\<exists>c. snd (addAlias tbl a name) = tbl\<lparr>entries := (entries tbl)(a \<mapsto> Getter name c)\<rparr>)"
  by (auto simp: addAlias_def sealed_def split: option.splits property.splits bool.splits)

lemma add_aliases_other:
  "b \<notin> set als \<Longrightarrow> entries (snd (add_aliases tbl als name)) b = entries tbl b"
proof (induction als arbitrary: tbl)
  case Nil
  then show ?case by simp
next
  case (Cons a als)
  obtain e tbl' where r: "addAlias tbl a name = (e, tbl')" by (cases "addAlias tbl a name")
  from Cons.prems have "b \<noteq> a" and "b \<notin> set als" by auto
  with addAlias_other [of b a tbl name] r have "entries tbl' b = entries tbl b" by simp
  with Cons.IH [OF \<open>b \<notin> set als\<close>, of tbl'] r show ?case
    by (cases e) simp_all
qed


lemma add_aliases_inherits: "inherits (snd (add_aliases tbl als name)) = inherits tbl"
proof (induction als arbitrary: tbl)
  case Nil
  then show ?case by simp
next
  case (Cons a als)
  obtain e tbl' where r: "addAlias tbl a name = (e, tbl')" by (cases "addAlias tbl a name")
  with addAlias_inherits [of tbl a name] have "inherits tbl' = inherits tbl" by simp
  with Cons.IH [of tbl'] r show ?case
    by (cases e) simp_all
qed

lemma add_aliases_entry:
  "entries (snd (add_aliases tbl als name)) b = entries tbl b
   \<or> entries (snd (add_aliases tbl als name)) b = Some (Getter name True)
   \<or> entries (snd (add_aliases tbl als name)) b = Some (Getter name False)"
proof (induction als arbitrary: tbl)
  case Nil
  then show ?case by simp
next
  case (Cons a als)
  obtain e tbl' where r: "addAlias tbl a name = (e, tbl')" by (cases "addAlias tbl a name")
  show ?case
  proof (cases e)
    case (Some x)
    with r addAlias_failed [of tbl a name] show ?thesis by simp
  next
    case None
    with r have "snd (add_aliases tbl (a # als) name) = snd (add_aliases tbl' als name)"
      by simp
    with Cons.IH [of tbl'] addAlias_entry_cases [of tbl a name b] r show ?thesis
      by auto
  qed
qed

lemma add_aliases_ok:
  "distinct als \<Longrightarrow> \<forall>a \<in> set als. \<not> sealed tbl a \<Longrightarrow>
   fst (add_aliases tbl als name) = None
   \<and> (\<forall>a \<in> set als. \<exists>c. entries (snd (add_aliases tbl als name)) a = Some (Getter name c))"
proof (induction als arbitrary: tbl)
  case Nil
  then show ?case by simp
next
  case (Cons a als)
  from Cons.prems have "\<not> sealed tbl a" by simp
  from addAlias_ok [OF this, of name] obtain c
    where r: "addAlias tbl a name = (None, tbl\<lparr>entries := (entries tbl)(a \<mapsto> Getter name c)\<rparr>)"
    by (cases "addAlias tbl a name") auto
  let ?t = "tbl\<lparr>entries := (entries tbl)(a \<mapsto> Getter name c)\<rparr>"
  from Cons.prems have d: "distinct als" and na: "a \<notin> set als" by simp_all
  have "\<forall>b \<in> set als. \<not> sealed ?t b"
    using Cons.prems na by (auto simp: sealed_def)
  then have both: "fst (add_aliases ?t als name) = None
    \<and> (\<forall>b \<in> set als. \<exists>c. entries (snd (add_aliases ?t als name)) b = Some (Getter name c))"
    by (rule Cons.IH [OF d])
  from both have ih1: "fst (add_aliases ?t als name) = None" ..
  from both
  have ih2: "\<forall>b \<in> set als. \<exists>c. entries (snd (add_aliases ?t als name)) b = Some (Getter name c)" ..
  have "entries (snd (add_aliases ?t als name)) a = entries ?t a"
    using na by (rule add_aliases_other)
  then have "\<exists>c. entries (snd (add_aliases ?t als name)) a = Some (Getter name c)" by simp
  with ih1 ih2 r show ?case by simp
qed



lemma assign_rule_stores:
  "\<not> getter_only tbl name \<Longrightarrow> \<not> reaches_setter tbl name \<Longrightarrow>
   assign_rule tbl name d = (None, tbl\<lparr>entries := (entries tbl)(name \<mapsto> Data d)\<rparr>)"
  by (auto simp: assign_rule_def getter_only_def split: option.splits property.splits)

lemma assign_rule_setter:
  "reaches_setter tbl name \<Longrightarrow> assign_rule tbl name d = (None, set_prototype tbl d)"
  by (auto simp: assign_rule_def reaches_setter_def)

lemma assign_rule_refused:
  "getter_only tbl name \<Longrightarrow> assign_rule tbl name d = (Some getter_only_assignment, tbl)"
  by (auto simp: assign_rule_def getter_only_def split: option.splits property.splits)



subsection \<open>Lookups\<close>




lemma chain_data:
  "tbl name = Some (Data d) \<Longrightarrow>
   obj_has [Map.empty, tbl] name \<and> obj_get [Map.empty, tbl] name = Some d"
  by (subst obj_get.simps) (simp add: obj_has_def)

subsection \<open>Entries of the default table\<close>

lemma default_rules_loaded: "fst (add_rules empty_table default_rule_list) = None"
  by (simp add: default_rule_list_def addRule_def assign_rule_def addAlias_def
      reaches_setter_def empty_table_def validate_rule_def filter_rule_def)

lemma default_table_inherits: "inherits default_table = ObjectPrototype"
  by (simp add: default_table_def default_rule_list_def addRule_def assign_rule_def
      addAlias_def reaches_setter_def empty_table_def validate_rule_def filter_rule_def)

lemma default_rules_defaults:
  "default_rules ''defaults'' = Some (Data (Obj (filter_rule
      ''Set default value if passed value is undefined'' defaults_filter)))"
  by (simp add: default_rules_def default_table_def default_rule_list_def addRule_def
      assign_rule_def addAlias_def reaches_setter_def empty_table_def validate_rule_def
      filter_rule_def)


lemma default_rules_equal:
  "default_rules ''equal'' = Some (Data (Obj (validate_rule
      ''Check if value equals acceptable value'' None equal_validate)))"
  by (simp add: default_rules_def default_table_def default_rule_list_def addRule_def
      assign_rule_def addAlias_def reaches_setter_def empty_table_def validate_rule_def
      filter_rule_def)

lemma default_rules_greater:
  "default_rules ''greater'' = Some (Data (Obj (validate_rule
      ''Check if value is greater then acceptable value'' (Some [''>'', ''gt''])
      greater_validate)))"
  by (simp add: default_rules_def default_table_def default_rule_list_def addRule_def
      assign_rule_def addAlias_def reaches_setter_def empty_table_def validate_rule_def
      filter_rule_def)


lemma default_rules_gt: "default_rules ''gt'' = Some (Getter ''greater'' False)"
  by (simp add: default_rules_def default_table_def default_rule_list_def addRule_def
      assign_rule_def addAlias_def reaches_setter_def empty_table_def validate_rule_def
      filter_rule_def)

lemma default_rules_free:
  "default_rules ''x'' = None" "default_rules ''same'' = None"
  "default_rules ''identical'' = None" "default_rules ''above'' = None"
  "default_rules ''__proto__'' = None"
  by (simp_all add: default_rules_def default_table_def default_rule_list_def addRule_def
      assign_rule_def addAlias_def reaches_setter_def empty_table_def validate_rule_def
      filter_rule_def)

lemma default_table_entries: "entries default_table = default_rules"
  by (simp add: default_rules_def)

subsection \<open>Registering a rule\<close>

text \<open>
  C5, as the code has it. When \<open>typeof descriptor\<close> is not \<open>object\<close>, \<open>addRule\<close>
  throws a plain \<open>Error\<close> (``Rule descriptor should be an object'') and leaves the
  table as it was. When the descriptor is an object, the name is not an accessor of
  the table, the assignment does not reach the setter of \<open>__proto__\<close>, and the aliases
  the descriptor lists are distinct, differ from the name and are not accessors that
  cannot be redefined, \<open>addRule\<close> throws nothing, stores the descriptor under the
  name, makes every alias an accessor that forwards to the name, changes no other
  entry and leaves what the table inherits from. When the assignment of an object
  reaches the setter of \<open>__proto__\<close>, the descriptor is not stored under the name: it
  becomes what the table inherits from.
\<close>

theorem addRule_registers:
  "(typeof_arg d \<noteq> ''object'' \<longrightarrow>
      addRule tbl name d = (Some not_an_object, tbl) \<and> class_of not_an_object = ErrorC)
   \<and> ((\<exists>r. d = Obj r) \<and> \<not> getter_only tbl name \<and> \<not> reaches_setter tbl name
        \<and> distinct (alias_list d) \<and> name \<notin> set (alias_list d)
        \<and> (\<forall>a \<in> set (alias_list d). \<not> sealed tbl a) \<longrightarrow>
      fst (addRule tbl name d) = None
      \<and> entries (snd (addRule tbl name d)) name = Some (Data d)
      \<and> (\<forall>a \<in> set (alias_list d).
            \<exists>c. entries (snd (addRule tbl name d)) a = Some (Getter name c))
      \<and> (\<forall>b. b \<noteq> name \<and> b \<notin> set (alias_list d) \<longrightarrow>
             entries (snd (addRule tbl name d)) b = entries tbl b)
      \<and> inherits (snd (addRule tbl name d)) = inherits tbl)
   \<and> (\<forall>r. d = Obj r \<and> reaches_setter tbl name \<longrightarrow>
         entries (snd (addRule tbl name d)) name \<noteq> Some (Data d)
         \<and> inherits (snd (addRule tbl name d)) = RuleObject r)"
proof (intro conjI impI)
  assume "typeof_arg d \<noteq> ''object''"
  then show "addRule tbl name d = (Some not_an_object, tbl)" by (simp add: addRule_def)
next
  show "class_of not_an_object = ErrorC" by (simp add: not_an_object_def)
next
  assume h: "(\<exists>r. d = Obj r) \<and> \<not> getter_only tbl name \<and> \<not> reaches_setter tbl name
        \<and> distinct (alias_list d) \<and> name \<notin> set (alias_list d)
        \<and> (\<forall>a \<in> set (alias_list d). \<not> sealed tbl a)"
  then obtain r where d: "d = Obj r" by blast
  let ?t = "tbl\<lparr>entries := (entries tbl)(name \<mapsto> Data d)\<rparr>"
  let ?als = "alias_list d"
  from h have a: "assign_rule tbl name d = (None, ?t)"
    by (simp add: assign_rule_stores)
  have res: "addRule tbl name d = add_aliases ?t ?als name"
    using a d by (simp add: addRule_def alias_list_def split: option.splits)
  have "\<forall>a \<in> set ?als. \<not> sealed ?t a"
    using h by (auto simp: sealed_def)
  with h add_aliases_ok [of ?als ?t name]
  have ok: "fst (add_aliases ?t ?als name) = None"
    "\<forall>a \<in> set ?als. \<exists>c. entries (snd (add_aliases ?t ?als name)) a = Some (Getter name c)"
    by simp_all
  from ok(1) res show "fst (addRule tbl name d) = None" by simp
  from h have "entries (snd (add_aliases ?t ?als name)) name = entries ?t name"
    by (intro add_aliases_other) simp
  with res show "entries (snd (addRule tbl name d)) name = Some (Data d)" by simp
  from ok(2) res
  show "\<forall>a \<in> set ?als. \<exists>c. entries (snd (addRule tbl name d)) a = Some (Getter name c)"
    by simp
  show "\<forall>b. b \<noteq> name \<and> b \<notin> set ?als \<longrightarrow> entries (snd (addRule tbl name d)) b = entries tbl b"
  proof (intro allI impI)
    fix b assume b: "b \<noteq> name \<and> b \<notin> set ?als"
    then have "entries (snd (add_aliases ?t ?als name)) b = entries ?t b"
      by (intro add_aliases_other) simp
    with res b show "entries (snd (addRule tbl name d)) b = entries tbl b" by simp
  qed
  from res add_aliases_inherits [of ?t ?als name]
  show "inherits (snd (addRule tbl name d)) = inherits tbl" by simp
next
  show "\<forall>r. d = Obj r \<and> reaches_setter tbl name \<longrightarrow>
      entries (snd (addRule tbl name d)) name \<noteq> Some (Data d)
      \<and> inherits (snd (addRule tbl name d)) = RuleObject r"
  proof (intro allI impI)
    fix r
    assume h: "d = Obj r \<and> reaches_setter tbl name"
    let ?t = "tbl\<lparr>inherits := RuleObject r\<rparr>"
    let ?als = "alias_list d"
    from h have a: "assign_rule tbl name d = (None, ?t)"
      by (simp add: assign_rule_setter set_prototype_def)
    have res: "addRule tbl name d = add_aliases ?t ?als name"
      using a h by (simp add: addRule_def alias_list_def split: option.splits)
    from h have "entries ?t name = None" by (auto simp: reaches_setter_def)
    with add_aliases_entry [of ?t ?als name name] res
    have one: "entries (snd (addRule tbl name d)) name \<noteq> Some (Data d)" by auto
    from res add_aliases_inherits [of ?t ?als name]
    have two: "inherits (snd (addRule tbl name d)) = RuleObject r" by simp
    from one two
    show "entries (snd (addRule tbl name d)) name \<noteq> Some (Data d)
      \<and> inherits (snd (addRule tbl name d)) = RuleObject r" ..
  qed
qed

text \<open>
  On the default table: a number is refused; a new rule \<open>identical\<close> with the alias
  \<open>same\<close> is registered; and the same rule given under the name \<open>__proto__\<close> is not
  stored but becomes what the table inherits from.
\<close>

theorem addRule_registers_witness:
  "addRule default_table ''identical'' (Prim (JNum 1)) = (Some not_an_object, default_table)
   \<and> fst (addRule default_table ''identical'' (Obj same_rule)) = None
   \<and> entries (snd (addRule default_table ''identical'' (Obj same_rule))) ''identical''
       = Some (Data (Obj same_rule))
   \<and> (\<exists>c. entries (snd (addRule default_table ''identical'' (Obj same_rule))) ''same''
          = Some (Getter ''identical'' c))
   \<and> entries (snd (addRule default_table ''__proto__'' (Obj same_rule))) ''__proto__''
       \<noteq> Some (Data (Obj same_rule))
   \<and> inherits (snd (addRule default_table ''__proto__'' (Obj same_rule)))
       = RuleObject same_rule"
  using addRule_registers [of "Prim (JNum 1)" default_table "''identical''"]
    addRule_registers [of "Obj same_rule" default_table "''identical''"]
    addRule_registers [of "Obj same_rule" default_table "''__proto__''"]
  by (simp add: alias_list_def same_rule_def validate_rule_def getter_only_def sealed_def
      reaches_setter_def default_table_entries default_table_inherits default_rules_free)

text \<open>
  C5 as stated fails twice. The error thrown for a descriptor that is a number is a
  plain \<open>Error\<close>, no instance of \<open>InvalidArgumentError\<close>; and an object given under
  the name \<open>gt\<close>, an alias of the default table, is not registered: the assignment
  throws a TypeError and the table stays as it was.
\<close>

theorem addRule_plain_error_and_alias_name:
  "fst (addRule default_table ''identical'' (Prim (JNum 1)))
     = Some (Thrown ErrorC ''Rule descriptor should be an object'')
   \<and> \<not> instance_of ErrorC InvalidArgumentError
   \<and> addRule default_table ''gt'' (Obj same_rule) = (Some getter_only_assignment, default_table)"
  by (simp add: addRule_def not_an_object_def instance_of_def assign_rule_def
      default_table_entries default_rules_gt)

text \<open>
  C9, as the code has it. For every name, \<open>addRule(name, null)\<close> passes the guard: it
  throws, but not the guard's error. For a name that is an accessor of the table, the
  assignment throws first and the table stays as it was. For every other name the call
  fails where a property of the null descriptor is read, after the assignment: that
  has stored \<open>null\<close> under the name or, where it reaches the setter of \<open>__proto__\<close>,
  has left the table inheriting from nothing.
\<close>

theorem addRule_null:
  "fst (addRule tbl name (Prim JNull)) \<noteq> None
   \<and> fst (addRule tbl name (Prim JNull)) \<noteq> Some not_an_object
   \<and> (getter_only tbl name \<longrightarrow>
        addRule tbl name (Prim JNull) = (Some getter_only_assignment, tbl))
   \<and> (\<not> getter_only tbl name \<longrightarrow>
        addRule tbl name (Prim JNull)
          = (Some null_property_read,
             if reaches_setter tbl name then tbl\<lparr>inherits := Nothing\<rparr>
             else tbl\<lparr>entries := (entries tbl)(name \<mapsto> Data (Prim JNull))\<rparr>))"
proof -
  have refused: "addRule tbl name (Prim JNull) = (Some getter_only_assignment, tbl)"
    if "getter_only tbl name"
    using that by (simp add: addRule_def assign_rule_refused)
  have read: "addRule tbl name (Prim JNull)
      = (Some null_property_read,
         if reaches_setter tbl name then tbl\<lparr>inherits := Nothing\<rparr>
         else tbl\<lparr>entries := (entries tbl)(name \<mapsto> Data (Prim JNull))\<rparr>)"
    if "\<not> getter_only tbl name"
    using that
    by (cases "reaches_setter tbl name")
       (simp_all add: addRule_def assign_rule_setter assign_rule_stores set_prototype_def)
  from refused read show ?thesis
    by (cases "getter_only tbl name")
       (simp_all add: not_an_object_def null_property_read_def getter_only_assignment_def)
qed

text \<open>
  On the default table: under the free name \<open>x\<close> null is stored, and under
  \<open>__proto__\<close> the table is left inheriting from nothing; both calls fail at the read.
\<close>

theorem addRule_null_witness:
  "addRule default_table ''x'' (Prim JNull)
     = (Some null_property_read,
        default_table\<lparr>entries := (entries default_table)(''x'' \<mapsto> Data (Prim JNull))\<rparr>)
   \<and> addRule default_table ''__proto__'' (Prim JNull)
       = (Some null_property_read, default_table\<lparr>inherits := Nothing\<rparr>)"
  using addRule_null [of default_table "''x''"] addRule_null [of default_table "''__proto__''"]
  by (simp add: getter_only_def reaches_setter_def default_table_entries
      default_table_inherits default_rules_free)

text \<open>
  C9 as stated fails for the name of an alias: \<open>addRule('gt', null)\<close> on the default
  table fails at the assignment, which an accessor without a setter refuses, before
  any property of the descriptor is read.
\<close>

theorem addRule_null_alias_name:
  "addRule default_table ''gt'' (Prim JNull) = (Some getter_only_assignment, default_table)
   \<and> getter_only_assignment \<noteq> null_property_read"
  by (simp add: addRule_def assign_rule_def default_table_entries default_rules_gt
      getter_only_assignment_def null_property_read_def)

subsection \<open>Aliases\<close>




section \<open>Properties of the validator\<close>

subsection \<open>Delivery of the callback\<close>

lemma validate_finished:
  "field vd v rs = Finish e iss out \<Longrightarrow> e = None \<or> cb \<Longrightarrow>
   \<exists>d. validate vd field v rs cb = Inr (Some (make_report vd rs False iss out), d)"
  by (cases e; cases cb) (simp_all add: validate_def finish_def Let_def)

text \<open>
  C2, as the code has it. With a callback, \<open>finish\<close> invokes it in-line when it runs
  with \<open>async\<close> already true (completion after \<open>validate\<close> has returned) or when
  \<open>forceAsync\<close> is not set, and hands it to the timer otherwise, that is when the
  evaluation completed synchronously and \<open>forceAsync\<close> is set. So a field that
  completes before \<open>validate\<close> returns has its callback invoked in-line exactly when
  \<open>forceAsync\<close> is not set.
\<close>

theorem callback_delivery:
  "finish vd rs True async err iss output
     = Inr (make_report vd rs async iss output,
            if async \<or> \<not> forceAsync vd then Inline else Deferred)
   \<and> (field vd v rs = Finish err iss output \<longrightarrow>
        validate vd field v rs True
          = Inr (Some (make_report vd rs False iss output),
                 if forceAsync vd then Deferred else Inline))"
  by (simp add: finish_def validate_def)

theorem callback_delivery_witness:
  "settled forced_validator (JNum 5) [] = Finish None [] (JNum 5)
   \<and> validate forced_validator settled (JNum 5) [] True
       = Inr (Some (make_report forced_validator [] False [] (JNum 5)), Deferred)"
  using callback_delivery [of forced_validator "[]" False None "[]" "JNum 5" settled "JNum 5"]
  by (simp add: settled_def forced_validator_def)

text \<open>
  C2 as stated fails where the evaluation completes synchronously and \<open>forceAsync\<close> is
  set: the callback is not invoked in-line, it is deferred.
\<close>

theorem forced_sync_callback_deferred:
  "validate forced_validator settled (JNum 5) [] True
     = Inr (Some \<lparr>isValid = True, isAsync = False, issues = Raw [], report_rules = [],
                 report_value = JNum 5\<rparr>, Deferred)"
  by (simp add: validate_def finish_def make_report_def settled_def forced_validator_def)

subsection \<open>Calls without a callback\<close>

text \<open>
  C3, as the code has it. Without a callback, whatever \<open>forceAsync\<close> is: a field that
  completes synchronously and without error makes \<open>validate\<close> return the report; an
  error of the field is thrown; a field still pending when its \<open>validate\<close> returns
  makes \<open>validate\<close> throw ``Validation not finished''; and ``Async validation
  without callback'' is what \<open>finish\<close> throws when it runs, without error, after
  \<open>validate\<close> has returned.
\<close>

theorem no_callback_outcomes:
  "(field vd v rs = Finish None iss output \<longrightarrow>
      validate vd field v rs False = Inr (Some (make_report vd rs False iss output), NoCallback))
   \<and> (field vd v rs = Finish (Some e) iss output \<longrightarrow> validate vd field v rs False = Inl e)
   \<and> (field vd v rs = Pending \<longrightarrow>
        validate vd field v rs False = Inl (Thrown ErrorC ''Validation not finished''))
   \<and> finish vd rs False True None iss output
       = Inl (Thrown ErrorC ''Async validation without callback'')"
  by (simp add: finish_def validate_def)

theorem no_callback_outcomes_witness:
  "settled forced_validator (JNum 5) [] = Finish None [] (JNum 5)
   \<and> validate forced_validator settled (JNum 5) [] False
       = Inr (Some (make_report forced_validator [] False [] (JNum 5)), NoCallback)"
  using no_callback_outcomes [of settled forced_validator "JNum 5" "[]" "[]" "JNum 5"]
  by (simp add: settled_def)

text \<open>
  C3 as stated fails in its first half: with \<open>forceAsync\<close> set, no callback and a
  field that completes synchronously, \<open>validate\<close> throws nothing and returns the
  report.
\<close>

theorem forced_sync_no_callback_returns:
  "forceAsync forced_validator
   \<and> validate forced_validator settled (JNum 5) [] False
       = Inr (Some \<lparr>isValid = True, isAsync = False, issues = Raw [], report_rules = [],
                   report_value = JNum 5\<rparr>, NoCallback)"
  by (simp add: validate_def finish_def make_report_def settled_def forced_validator_def)

subsection \<open>The static entry point\<close>

lemma greater_number: "greater_validate (JNum a) (JNum b) = False"
  by (simp add: greater_validate_def typeof_gt_def)

lemma static_instance_rules:
  "rules (new_Validator Validator_prototype (Validator_options\<lparr>opt_rules := None\<rparr>))
     = [Map.empty, default_rules]"
  by (simp add: new_Validator_def Validator_prototype_def Validator_options_def extend_def)

lemma static_instance_flags:
  "forceAsync (new_Validator Validator_prototype (Validator_options\<lparr>opt_rules := None\<rparr>))
     = False"
  "reporter (new_Validator Validator_prototype (Validator_options\<lparr>opt_rules := None\<rparr>))
     = None"
  "execRules (new_Validator Validator_prototype (Validator_options\<lparr>opt_rules := None\<rparr>))
     = True"
  by (simp_all add: new_Validator_def Validator_prototype_def Validator_options_def)

lemma static_greater:
  "Validator_validate (Validator_prototype :: (jsval, unit) prototype)
     (Field_validate no_functions) (JNum n) [(''greater'', JNum 3)] Absent False
   = Inr (Some \<lparr>isValid = False, isAsync = False,
               issues = Raw [\<lparr>issue_rule = ''greater'', issue_accept = JNum 3,
                               issue_value = JNum n\<rparr>],
               report_rules = [(''greater'', JNum 3)], report_value = JNum n\<rparr>, NoCallback)"
proof -
  let ?vd = "new_Validator Validator_prototype (Validator_options\<lparr>opt_rules := None\<rparr>)
    :: (jsval, unit) validator"
  have "Field_rule no_functions ?vd ''greater'' (JNum 3) (JNum n) []
      = Continue (JNum n) [\<lparr>issue_rule = ''greater'', issue_accept = JNum 3,
                              issue_value = JNum n\<rparr>]"
    using chain_data [of default_rules "''greater''", OF default_rules_greater]
    by (simp add: Field_rule_def hasRule_def static_instance_rules static_instance_flags
        apply_rule_def resolve_def no_functions_def validate_rule_def greater_number Let_def)
  then have "Field_validate no_functions ?vd (JNum n) [(''greater'', JNum 3)]
      = Finish None [\<lparr>issue_rule = ''greater'', issue_accept = JNum 3,
                        issue_value = JNum n\<rparr>] (JNum n)"
    by (simp add: Field_validate_def)
  then show ?thesis
    by (simp add: Validator_validate_def validate_def finish_def make_report_def
        static_instance_flags)
qed

text \<open>
  C1 at its inputs. \<open>typeof value > accept\<close> compares the string \<open>number\<close> with 3,
  which is false, so \<open>greater\<close> fails for 5 as it does for 2: both calls of the static
  \<open>Validator.validate\<close> return a report that is not valid, with the one issue of rule
  \<open>greater\<close>.
\<close>

theorem static_validate_greater_3:
  "greater_validate (JNum 3) (JNum 5) = False
   \<and> Validator_validate (Validator_prototype :: (jsval, unit) prototype)
       (Field_validate no_functions) (JNum 5) [(''greater'', JNum 3)] Absent False
     = Inr (Some \<lparr>isValid = False, isAsync = False,
                 issues = Raw [\<lparr>issue_rule = ''greater'', issue_accept = JNum 3,
                                 issue_value = JNum 5\<rparr>],
                 report_rules = [(''greater'', JNum 3)], report_value = JNum 5\<rparr>, NoCallback)
   \<and> Validator_validate (Validator_prototype :: (jsval, unit) prototype)
       (Field_validate no_functions) (JNum 2) [(''greater'', JNum 3)] Absent False
     = Inr (Some \<lparr>isValid = False, isAsync = False,
                 issues = Raw [\<lparr>issue_rule = ''greater'', issue_accept = JNum 3,
                                 issue_value = JNum 2\<rparr>],
                 report_rules = [(''greater'', JNum 3)], report_value = JNum 2\<rparr>, NoCallback)"
  by (simp add: static_greater greater_number)

section \<open>Properties of the field\<close>

lemma Field_rules_append:
  "Field_rules invoke vd (pre @ rest) v iss =
     (case Field_rules invoke vd pre v iss of
        Finish None iss1 v1 \<Rightarrow> Field_rules invoke vd rest v1 iss1
      | other \<Rightarrow> other)"
  by (induction pre arbitrary: v iss) (auto split: step.splits)

lemma Field_rules_total: "\<exists>e iss' v'. Field_rules invoke vd rs v iss = Finish e iss' v'"
  by (induction rs arbitrary: v iss) (auto split: step.splits)

lemma apply_rule_keeps: "apply_rule r name acc v iss = (v', iss') \<Longrightarrow> set iss \<subseteq> set iss'"
  by (auto simp: apply_rule_def Let_def split: option.splits if_splits)

lemma Field_rule_keeps:
  "Field_rule invoke vd name acc v iss = Continue v' iss' \<Longrightarrow> set iss \<subseteq> set iss'"
  by (auto simp: Field_rule_def split: if_splits option.splits jsarg.splits prod.splits
      dest: apply_rule_keeps)

lemma Field_rules_keeps:
  "Field_rules invoke vd rs v iss = Finish e iss' v' \<Longrightarrow> set iss \<subseteq> set iss'"
proof (induction rs arbitrary: v iss)
  case Nil
  then show ?case by simp
next
  case (Cons a rs)
  obtain name acc where a: "a = (name, acc)" by (cases a)
  show ?case
  proof (cases "Field_rule invoke vd name acc v iss")
    case (Continue v1 iss1)
    with Cons.prems a have "Field_rules invoke vd rs v1 iss1 = Finish e iss' v'" by simp
    then have "set iss1 \<subseteq> set iss'" by (rule Cons.IH)
    with Field_rule_keeps [OF Continue] show ?thesis by blast
  next
    case (Stop x)
    with Cons.prems a show ?thesis by simp
  qed
qed

lemma default_validator_rules: "rules default_validator = [Map.empty, default_rules]"
  by (simp add: default_validator_def new_Validator_def Validator_prototype_def
      Validator_options_def extend_def)

lemma dropping_validator_rules: "rules dropping_validator = [Map.empty, default_rules]"
  by (simp add: dropping_validator_def new_Validator_def Validator_prototype_def
      Validator_options_def extend_def)

text \<open>
  C4, as the code has it. Let the rules before an entry \<open>(name, acc)\<close> of the rule set
  have run without error, and let \<open>name\<close> be registered with a descriptor whose
  \<open>validate\<close> predicate returns false for the resolved parameter and the field's
  value at that point. Then the failure is an issue of rule \<open>name\<close> and evaluation
  goes on with the remaining entries; the evaluation ends with an issue list that holds
  the issue; the report is not valid; its issues are that list when there is no
  reporter and the reporter's conversion of that list when there is one; and
  \<open>validate\<close> returns the report, unless some other entry raised an error and no
  callback could take it.
\<close>

theorem failed_rule_reported:
  assumes before: "Field_rules invoke vd pre v [] = Finish None iss1 v1"
    and registered: "hasRule vd name" "obj_get (rules vd) name = Some (Obj r)"
    and predicate: "validate_fn r = Some p"
    and input: "acc' = resolve invoke vd acc v1"
      "v2 = (case filter_fn r of Some f \<Rightarrow> f acc' v1 | None \<Rightarrow> v1)"
    and fails: "\<not> p acc' v2"
    and rs: "rs = pre @ (name, acc) # post"
    and i: "i = \<lparr>issue_rule = name, issue_accept = acc', issue_value = v2\<rparr>"
  shows "Field_validate invoke vd v rs = Field_rules invoke vd post v2 (iss1 @ [i])
    \<and> (\<exists>e iss' out.
          Field_validate invoke vd v rs = Finish e iss' out \<and> i \<in> set iss'
          \<and> \<not> isValid (make_report vd rs False iss' out)
          \<and> issues (make_report vd rs False iss' out)
              = (case reporter vd of None \<Rightarrow> Raw iss'
                 | Some convert \<Rightarrow> Converted (convert iss' rs))
          \<and> (\<forall>cb. e = None \<or> cb \<longrightarrow>
                (\<exists>d. validate vd (Field_validate invoke) v rs cb
                       = Inr (Some (make_report vd rs False iss' out), d))))"
proof -
  have st: "Field_rule invoke vd name acc v1 iss1 = Continue v2 (iss1 @ [i])"
    using registered predicate input fails i
    by (cases "filter_fn r") (simp_all add: Field_rule_def apply_rule_def Let_def)
  have run: "Field_validate invoke vd v rs = Field_rules invoke vd post v2 (iss1 @ [i])"
    by (simp add: Field_validate_def rs Field_rules_append before st)
  from Field_rules_total [of invoke vd post v2 "iss1 @ [i]"] obtain e iss' out
    where fin: "Field_rules invoke vd post v2 (iss1 @ [i]) = Finish e iss' out" by blast
  from Field_rules_keeps [OF fin] have mem: "i \<in> set iss'" by auto
  then have ne: "iss' \<noteq> []" by auto
  from run fin have whole: "Field_validate invoke vd v rs = Finish e iss' out" by simp
  have ret: "\<forall>cb. e = None \<or> cb \<longrightarrow>
      (\<exists>d. validate vd (Field_validate invoke) v rs cb
             = Inr (Some (make_report vd rs False iss' out), d))"
    using validate_finished [of "Field_validate invoke" vd v rs e iss' out] whole by blast
  have inv: "\<not> isValid (make_report vd rs False iss' out)"
    using ne by (simp add: make_report_def)
  have shape: "issues (make_report vd rs False iss' out)
      = (case reporter vd of None \<Rightarrow> Raw iss' | Some convert \<Rightarrow> Converted (convert iss' rs))"
    by (simp add: make_report_def split: option.splits)
  from run whole mem inv shape ret show ?thesis by blast
qed

text \<open>
  The default validator on an undefined value, with \<open>defaults: 2\<close> and then
  \<open>equal: 3\<close>: the value becomes 2 and \<open>equal\<close> fails on it.
\<close>

theorem failed_rule_reported_witness:
  "Field_validate no_functions default_validator JUndefined
     [(''defaults'', JNum 2), (''equal'', JNum 3)]
   = Finish None [\<lparr>issue_rule = ''equal'', issue_accept = JNum 3, issue_value = JNum 2\<rparr>]
       (JNum 2)"
proof -
  let ?r = "validate_rule ''Check if value equals acceptable value'' None equal_validate"
  have before:
    "Field_rules no_functions default_validator [(''defaults'', JNum 2)] JUndefined []
      = Finish None [] (JNum 2)"
    using chain_data [of default_rules "''defaults''", OF default_rules_defaults]
    by (simp add: Field_rule_def hasRule_def default_validator_rules apply_rule_def
        resolve_def no_functions_def filter_rule_def defaults_filter_def Let_def)
  have registered: "hasRule default_validator ''equal''"
    "obj_get (rules default_validator) ''equal'' = Some (Obj ?r)"
    using chain_data [of default_rules "''equal''", OF default_rules_equal]
    by (simp_all add: hasRule_def default_validator_rules)
  have predicate: "validate_fn ?r = Some equal_validate" by (simp add: validate_rule_def)
  have input: "JNum 3 = resolve no_functions default_validator (JNum 3) (JNum 2)"
    "JNum 2 = (case filter_fn ?r of Some f \<Rightarrow> f (JNum 3) (JNum 2) | None \<Rightarrow> JNum 2)"
    by (simp_all add: resolve_def no_functions_def validate_rule_def)
  have fails: "\<not> equal_validate (JNum 3) (JNum 2)"
    by (simp add: equal_validate_def strict_eq_def)
  from failed_rule_reported [OF before registered predicate input fails refl refl, of "[]"]
  show ?thesis by simp
qed

text \<open>
  C4 as stated fails where a reporter is configured: the report of a failed rule holds
  what the reporter returns, here no issue at all, while \<open>isValid\<close> is false.
\<close>

theorem reporter_replaces_issues:
  "validate dropping_validator (Field_validate no_functions) (JNum 2) [(''equal'', JNum 3)] False
   = Inr (Some \<lparr>isValid = False, isAsync = False, issues = Converted [],
               report_rules = [(''equal'', JNum 3)], report_value = JNum 2\<rparr>, NoCallback)"
proof -
  have "Field_validate no_functions dropping_validator (JNum 2) [(''equal'', JNum 3)]
      = Finish None [\<lparr>issue_rule = ''equal'', issue_accept = JNum 3, issue_value = JNum 2\<rparr>]
          (JNum 2)"
    using chain_data [of default_rules "''equal''", OF default_rules_equal]
    by (simp add: Field_validate_def Field_rule_def hasRule_def dropping_validator_rules
        apply_rule_def resolve_def no_functions_def validate_rule_def equal_validate_def
        strict_eq_def Let_def)
  moreover have "reporter dropping_validator = Some (\<lambda>iss rs. [])"
    "forceAsync dropping_validator = False"
    by (simp_all add: dropping_validator_def new_Validator_def Validator_prototype_def
        Validator_options_def)
  ultimately show ?thesis
    by (simp add: validate_def finish_def make_report_def)
qed

section \<open>Properties of the constructor\<close>



section \<open>Properties of the default rules\<close>

text \<open>
  C7. The \<open>defaults\<close> filter with accepted parameter \<open>X\<close> returns \<open>X\<close> when the
  current value is undefined, and returns every defined value unchanged.
\<close>

theorem defaults_filter_spec:
  "defaults_filter X JUndefined = X \<and> (v \<noteq> JUndefined \<longrightarrow> defaults_filter X v = v)"
  by (cases v) (simp_all add: defaults_filter_def)

theorem defaults_filter_spec_witness:
  "defaults_filter (JNum 7) JUndefined = JNum 7
   \<and> JStr ''a'' \<noteq> JUndefined \<and> defaults_filter (JNum 7) (JStr ''a'') = JStr ''a''"
  using defaults_filter_spec [of "JNum 7" "JStr ''a''"] by simp

section \<open>Properties of the blocks repository\<close>

lemma set_field_length: "length (set_field h b f v) = length h"
  by (simp add: set_field_def)

lemma set_field_frame: "a \<noteq> b \<Longrightarrow> set_field h b f v ! a = h ! a"
  by (simp add: set_field_def)

lemma get_set_other_object: "a \<noteq> b \<Longrightarrow> get_field (set_field h b f v) a g = get_field h a g"
  by (simp add: get_field_def set_field_def)

lemma get_set_same: "b < length h \<Longrightarrow> get_field (set_field h b f v) b f = v"
  by (simp add: get_field_def set_field_def)

lemma get_set_other_field:
  "b < length h \<Longrightarrow> f \<noteq> g \<Longrightarrow> get_field (set_field h b f v) b g = get_field h b g"
  by (simp add: get_field_def set_field_def)

lemma get_field_append: "a < length h \<Longrightarrow> get_field (h @ [ob]) a f = get_field h a f"
  by (simp add: get_field_def nth_append)

text \<open>
  C10. \<open>save\<close> leaves every object that existed before the call, the caller's block
  among them, exactly as it was, whether it returns or rethrows. The one object it
  adds is the copy: when \<open>save\<close> reaches the query, the copy holds the buffers made
  from the block's \<open>payloadHash\<close>, \<open>generatorPublicKey\<close> and \<open>blockSignature\<close>, and
  the block's \<open>reward\<close> or 0 in its place.
\<close>

theorem save_frame:
  assumes valid: "block < length h" and run: "save buffer_from h block = (h', res)"
  shows "h' ! block = h ! block \<and> (\<forall>a < length h. h' ! a = h ! a)
    \<and> length h' = Suc (length h)
    \<and> (\<forall>sb. res = Inr sb \<longrightarrow>
          sb = length h
          \<and> buffer_from (get_field h block ''payloadHash'') = Inr (get_field h' sb ''payloadHash'')
          \<and> buffer_from (get_field h block ''generatorPublicKey'')
              = Inr (get_field h' sb ''generatorPublicKey'')
          \<and> buffer_from (get_field h block ''blockSignature'')
              = Inr (get_field h' sb ''blockSignature'')
          \<and> get_field h' sb ''reward'' = js_or (get_field h block ''reward'') (BNum 0))"
proof -
  let ?n = "length h"
  let ?h1 = "h @ [h ! block]"
  from valid have ne: "block \<noteq> ?n" by simp
  have rd: "get_field ?h1 block f = get_field h block f" for f
    using valid by (rule get_field_append)
  have frame: "(\<forall>a < ?n. h' ! a = h ! a) \<and> length h' = Suc ?n
      \<and> (\<forall>sb. res = Inr sb \<longrightarrow> sb = ?n)"
    using run
    by (auto simp: save_def assign_new_def Let_def set_field_frame set_field_length nth_append
        split: sum.splits)
  have copy: "buffer_from (get_field h block ''payloadHash'') = Inr (get_field h' ?n ''payloadHash'')
      \<and> buffer_from (get_field h block ''generatorPublicKey'')
          = Inr (get_field h' ?n ''generatorPublicKey'')
      \<and> buffer_from (get_field h block ''blockSignature'')
          = Inr (get_field h' ?n ''blockSignature'')
      \<and> get_field h' ?n ''reward'' = js_or (get_field h block ''reward'') (BNum 0)"
    if "res = Inr sb" for sb
    using run that ne
    by (auto simp: save_def assign_new_def Let_def rd get_set_other_object get_set_same
        get_set_other_field set_field_length
        split: sum.splits)
  from frame copy valid show ?thesis by auto
qed

text \<open>
  A heap with the example block alone: after \<open>save\<close> the block is what it was, and
  the copy, the second object, holds a buffer and the reward 0.
\<close>

theorem save_frame_witness:
  "fst (save Buffer_from [example_block] 0) ! 0 = example_block
   \<and> get_field (fst (save Buffer_from [example_block] 0)) 1 ''payloadHash'' = BBuffer [227, 176]
   \<and> get_field (fst (save Buffer_from [example_block] 0)) 1 ''reward'' = BNum 0
   \<and> snd (save Buffer_from [example_block] 0) = Inr 1"
proof -
  have res: "snd (save Buffer_from [example_block] 0) = Inr 1"
    by (simp add: save_def assign_new_def Let_def Buffer_from_def get_field_def set_field_def
        example_block_def)
  have blk: "get_field [example_block] 0 ''payloadHash'' = BStr ''e3b0''"
    "get_field [example_block] 0 ''reward'' = BUndefined"
    by (simp_all add: get_field_def example_block_def)
  have valid: "0 < length [example_block]" by simp
  have run: "save Buffer_from [example_block] 0
      = (fst (save Buffer_from [example_block] 0), snd (save Buffer_from [example_block] 0))"
    by simp
  from save_frame [OF valid run] res blk
  show ?thesis by (simp add: Buffer_from_def js_or_def)
qed

end
